theory Spec2Isabelle
  imports Main "HOL-Library.Sublist" "HOL-Library.Product_Lexorder" "HOL-Library.AList"
begin

section \<open>Python strings\<close>

text \<open>
  A Python \<^verbatim>\<open>str\<close> is a sequence of Unicode code points, and \<^verbatim>\<open>len\<close> counts code
  points.  A code point is modelled as a natural number, a string as the list of its code
  points.  String literals of the source are written \<open>ustr ''...''\<close>.
\<close>

type_synonym ustring = "nat list"

definition ustr :: "string \<Rightarrow> ustring" where
  "ustr s = map of_char s"

text \<open>\<^verbatim>\<open>s.startswith(p)\<close>, \<^verbatim>\<open>s.endswith(p)\<close> and \<^verbatim>\<open>sub in s\<close>.\<close>

definition startswith :: "ustring \<Rightarrow> ustring \<Rightarrow> bool" where
  "startswith s p = (take (length p) s = p)"

definition endswith :: "ustring \<Rightarrow> ustring \<Rightarrow> bool" where
  "endswith s p = (length p \<le> length s \<and> drop (length s - length p) s = p)"

fun py_in :: "ustring \<Rightarrow> ustring \<Rightarrow> bool" where
  "py_in sub [] = (sub = [])"
| "py_in sub (c # cs) = (startswith (c # cs) sub \<or> py_in sub cs)"

text \<open>
  The characters that \<^verbatim>\<open>str.strip()\<close> and \<^verbatim>\<open>str.split()\<close> treat as whitespace
  (\<^verbatim>\<open>str.isspace\<close>).
\<close>

definition is_space :: "nat \<Rightarrow> bool" where
  "is_space c = ((9 \<le> c \<and> c \<le> 13) \<or> (28 \<le> c \<and> c \<le> 32) \<or> c = 133 \<or> c = 160
     \<or> c = 5760 \<or> (8192 \<le> c \<and> c \<le> 8202) \<or> c = 8232 \<or> c = 8233 \<or> c = 8239
     \<or> c = 8287 \<or> c = 12288)"

definition py_strip :: "ustring \<Rightarrow> ustring" where
  "py_strip s = rev (dropWhile is_space (rev (dropWhile is_space s)))"

text \<open>
  \<^verbatim>\<open>s.split()\<close> with no argument cuts at runs of whitespace and yields no empty word;
  \<open>cur\<close> holds the characters of the current word, last one first.
\<close>

fun split_words :: "ustring \<Rightarrow> ustring \<Rightarrow> ustring list" where
  "split_words cur [] = (if cur = [] then [] else [rev cur])"
| "split_words cur (c # cs) =
     (if is_space c then (if cur = [] then split_words [] cs else rev cur # split_words [] cs)
      else split_words (c # cur) cs)"

definition py_split :: "ustring \<Rightarrow> ustring list" where
  "py_split s = split_words [] s"

text \<open>\<^verbatim>\<open>sep.join(xs)\<close>.\<close>

fun py_join :: "ustring \<Rightarrow> ustring list \<Rightarrow> ustring" where
  "py_join sep [] = []"
| "py_join sep [x] = x"
| "py_join sep (x # y # ys) = x @ sep @ py_join sep (y # ys)"

section \<open>Python values and exceptions\<close>

text \<open>
  The values that \<^verbatim>\<open>response.json()\<close> can produce: \<^verbatim>\<open>None\<close>, booleans, numbers
  (their value is only ever tested for truth), strings, lists and dicts.  A dict is the
  list of its items in insertion order; its keys are distinct.
\<close>

datatype pyval =
    PNone
  | PBool bool
  | PNum int
  | PStr ustring
  | PList "pyval list"
  | PDict "(ustring \<times> pyval) list"

datatype exn = HTTPError | RequestException | ValueError | TypeError | AttributeError

text \<open>The truth value Python gives a value in \<^verbatim>\<open>if v:\<close>.\<close>

fun truthy :: "pyval \<Rightarrow> bool" where
  "truthy PNone = False"
| "truthy (PBool b) = b"
| "truthy (PNum n) = (n \<noteq> 0)"
| "truthy (PStr s) = (s \<noteq> [])"
| "truthy (PList xs) = (xs \<noteq> [])"
| "truthy (PDict kvs) = (kvs \<noteq> [])"

text \<open>
  \<^verbatim>\<open>v.get(key, default)\<close>: only a dict has the method; on any other value the attribute
  lookup raises \<^verbatim>\<open>AttributeError\<close>.
\<close>

fun py_get :: "pyval \<Rightarrow> ustring \<Rightarrow> pyval \<Rightarrow> exn + pyval" where
  "py_get (PDict kvs) key dflt = Inr (case map_of kvs key of None \<Rightarrow> dflt | Some v \<Rightarrow> v)"
| "py_get v key dflt = Inl AttributeError"

text \<open>\<^verbatim>\<open>isinstance(data, dict) and key in data\<close>.\<close>

fun dict_has :: "pyval \<Rightarrow> ustring \<Rightarrow> bool" where
  "dict_has (PDict kvs) key = (map_of kvs key \<noteq> None)"
| "dict_has v key = False"

text \<open>
  The elements a \<^verbatim>\<open>for\<close> loop or a comprehension draws from a value: the elements of a
  list, the keys of a dict, the characters of a string; any other value is not iterable.
\<close>

fun py_iter :: "pyval \<Rightarrow> exn + pyval list" where
  "py_iter (PList xs) = Inr xs"
| "py_iter (PDict kvs) = Inr (map (\<lambda>kv. PStr (fst kv)) kvs)"
| "py_iter (PStr s) = Inr (map (\<lambda>c. PStr [c]) s)"
| "py_iter v = Inl TypeError"

section \<open>The libraries the program calls\<close>

text \<open>
  A parsed page as the program observes it.  \<open>find_div soup a v\<close> is
  \<^verbatim>\<open>soup.find('div', {a: v})\<close>: the first \<^verbatim>\<open>div\<close> of the document whose attribute \<open>a\<close>
  matches \<open>v\<close>, given by the text strings below it in document order, or \<open>None\<close>.
  \<open>strings soup\<close> are the text strings of the whole document.
  \<^verbatim>\<open>get_text(separator=sep)\<close> joins the strings with \<open>sep\<close>.
\<close>

record soup =
  find_div :: "ustring \<Rightarrow> ustring \<Rightarrow> ustring list option"
  strings :: "ustring list"

definition get_text :: "ustring \<Rightarrow> ustring list \<Rightarrow> ustring" where
  "get_text sep strs = py_join sep strs"

record response =
  status_code :: nat
  content :: "nat list"

text \<open>A calendar date (year, month, day); \<^verbatim>\<open>datetime\<close> values at midnight compare the same way.\<close>

type_synonym date = "nat \<times> nat \<times> nat"

text \<open>A request: the URL and the query parameters.\<close>

type_synonym request = "ustring \<times> (ustring \<times> pyval) list"

text \<open>
  The code of \<^verbatim>\<open>requests\<close>, \<^verbatim>\<open>bs4\<close>, \<^verbatim>\<open>html\<close>, \<^verbatim>\<open>urllib\<close>, \<^verbatim>\<open>datetime\<close> and of the
  remote server is not part of the repository; what they answer is a parameter:
  \<^item> \<open>html_unescape\<close>: \<^verbatim>\<open>html.unescape\<close>;
  \<^item> \<open>urljoin\<close>: \<^verbatim>\<open>urllib.parse.urljoin\<close>, which raises on a malformed locator;
  \<^item> \<open>respond\<close>: what \<^verbatim>\<open>requests.get\<close> returns or raises for a request, given the
    requests made before it;
  \<^item> \<open>raise_for_status\<close>: the exception \<^verbatim>\<open>response.raise_for_status()\<close> raises for a
    status code, if any;
  \<^item> \<open>json_loads\<close>: \<^verbatim>\<open>response.json()\<close> on the content;
  \<^item> \<open>beautiful_soup\<close>: \<^verbatim>\<open>BeautifulSoup(response.content, 'lxml')\<close>;
  \<^item> \<open>strptime\<close>: \<^verbatim>\<open>datetime.strptime(s, "%Y-%m-%d")\<close>.
\<close>

record env =
  html_unescape :: "ustring \<Rightarrow> ustring"
  urljoin :: "ustring \<Rightarrow> ustring \<Rightarrow> exn + ustring"
  respond :: "request list \<Rightarrow> request \<Rightarrow> exn + response"
  raise_for_status :: "nat \<Rightarrow> exn option"
  json_loads :: "nat list \<Rightarrow> exn + pyval"
  beautiful_soup :: "nat list \<Rightarrow> exn + soup"
  strptime :: "ustring \<Rightarrow> exn + date"

text \<open>
  What \<^verbatim>\<open>Response.raise_for_status\<close> of the \<^verbatim>\<open>requests\<close> library does: it raises
  \<^verbatim>\<open>HTTPError\<close> for a status from 400 to 599 and for no other status.
\<close>

definition requests_raise_for_status :: "nat \<Rightarrow> exn option" where
  "requests_raise_for_status code = (if 400 \<le> code \<and> code < 600 then Some HTTPError else None)"

text \<open>
  \<^verbatim>\<open>requests.get(url, params=params, headers=headers)\<close>.  The requests made so far are
  the state of the network; every call adds its request to them.  The headers are a
  constant of the program and are left out.
\<close>

definition requests_get ::
  "env \<Rightarrow> request list \<Rightarrow> ustring \<Rightarrow> (ustring \<times> pyval) list \<Rightarrow> (exn + response) \<times> request list" where
  "requests_get E log url params = (respond E log (url, params), log @ [(url, params)])"

section \<open>Truncation heuristic\<close>

text \<open>
  The condition of \<^verbatim>\<open>export_speeches_to_csv\<close> that decides whether a body is truncated:
  \<^verbatim>\<open>body.endswith('...') or '&#' in body or len(body) < 200\<close>.
\<close>

definition is_truncated :: "ustring \<Rightarrow> bool" where
  "is_truncated body =
     (endswith body (ustr ''...'') \<or> py_in (ustr ''&#'') body \<or> length body < 200)"

section \<open>The API client\<close>

record api =
  api_key :: ustring
  api_url :: ustring

text \<open>
  The query parameters of a call: \<^verbatim>\<open>params = {'key': ..., 'output': 'js'}\<close> followed by
  \<^verbatim>\<open>params.update(kwargs)\<close>, which replaces the value of a key that is present and appends
  the others.
\<close>

definition call_params :: "api \<Rightarrow> (ustring \<times> pyval) list \<Rightarrow> (ustring \<times> pyval) list" where
  "call_params self kwargs =
     foldl (\<lambda>al kv. AList.update (fst kv) (snd kv) al)
       [(ustr ''key'', PStr (api_key self)), (ustr ''output'', PStr (ustr ''js''))] kwargs"

text \<open>
  \<^verbatim>\<open>OpenAustraliaAPI._make_call\<close>.  Every exception of the \<^verbatim>\<open>try\<close> block ends in
  \<^verbatim>\<open>return None\<close>, and so does a dict that carries \<^verbatim>\<open>'error'\<close>.
\<close>

definition make_call ::
  "env \<Rightarrow> request list \<Rightarrow> api \<Rightarrow> ustring \<Rightarrow> (ustring \<times> pyval) list \<Rightarrow> pyval \<times> request list" where
  "make_call E log self function kwargs =
     (let api_endpoint = api_url self @ ustr ''/'' @ function;
          params = call_params self kwargs;
          (r, log') = requests_get E log api_endpoint params
      in case r of
           Inl e \<Rightarrow> (PNone, log')
         | Inr response \<Rightarrow>
             (case raise_for_status E (status_code response) of
                Some e \<Rightarrow> (PNone, log')
              | None \<Rightarrow>
                  (case json_loads E (content response) of
                     Inl e \<Rightarrow> (PNone, log')
                   | Inr data \<Rightarrow>
                       if dict_has data (ustr ''error'') then (PNone, log') else (data, log'))))"

text \<open>The keyword arguments of \<^verbatim>\<open>get_hansard\<close>; each defaults to \<^verbatim>\<open>None\<close>.\<close>

record hansard_args =
  search :: pyval
  person :: pyval
  order_by :: pyval
  page :: pyval
  num :: pyval

text \<open>The keyword arguments \<^verbatim>\<open>get_hansard\<close> passes on to \<^verbatim>\<open>_make_call\<close>.\<close>

definition hansard_kwargs :: "hansard_args \<Rightarrow> (ustring \<times> pyval) list" where
  "hansard_kwargs args =
     [(ustr ''search'', search args), (ustr ''person'', person args),
      (ustr ''order'', order_by args), (ustr ''page'', page args), (ustr ''num'', num args)]"

text \<open>
  \<^verbatim>\<open>OpenAustraliaAPI.get_hansard\<close>: a dict with \<^verbatim>\<open>'rows'\<close> gives \<^verbatim>\<open>data['rows']\<close>, a list gives
  itself, and the \<^verbatim>\<open>else\<close> branch returns \<^verbatim>\<open>None\<close>.
\<close>

definition get_hansard :: "env \<Rightarrow> request list \<Rightarrow> api \<Rightarrow> hansard_args \<Rightarrow> pyval \<times> request list" where
  "get_hansard E log self args =
     (let (data, log') = make_call E log self (ustr ''getHansard'') (hansard_kwargs args)
      in case data of
           PDict kvs \<Rightarrow>
             (case map_of kvs (ustr ''rows'') of
                Some rows \<Rightarrow> (rows, log')
              | None \<Rightarrow> (PNone, log'))
         | PList xs \<Rightarrow> (PList xs, log')
         | _ \<Rightarrow> (PNone, log'))"

section \<open>Date-range filter\<close>

text \<open>
  \<^verbatim>\<open>datetime.strptime(entry.get('hdate', '1900-01-01'), "%Y-%m-%d")\<close>: the default stands
  in for a missing key only, and \<^verbatim>\<open>strptime\<close> takes nothing but a string.
\<close>

definition entry_date :: "env \<Rightarrow> pyval \<Rightarrow> exn + date" where
  "entry_date E entry =
     (case py_get entry (ustr ''hdate'') (PStr (ustr ''1900-01-01'')) of
        Inl e \<Rightarrow> Inl e
      | Inr (PStr s) \<Rightarrow> strptime E s
      | Inr _ \<Rightarrow> Inl TypeError)"

text \<open>
  The list comprehension of \<^verbatim>\<open>get_hansard_by_date_range\<close>; an exception raised for one
  entry ends the whole comprehension.
\<close>

fun filter_entries :: "env \<Rightarrow> date \<Rightarrow> date \<Rightarrow> pyval list \<Rightarrow> exn + pyval list" where
  "filter_entries E start_date_obj end_date_obj [] = Inr []"
| "filter_entries E start_date_obj end_date_obj (entry # entries) =
     (case entry_date E entry of
        Inl e \<Rightarrow> Inl e
      | Inr d \<Rightarrow>
          (case filter_entries E start_date_obj end_date_obj entries of
             Inl e \<Rightarrow> Inl e
           | Inr filtered \<Rightarrow>
               Inr (if start_date_obj \<le> d \<and> d \<le> end_date_obj then entry # filtered else filtered)))"

text \<open>
  \<^verbatim>\<open>OpenAustraliaAPI.get_hansard_by_date_range\<close>.  The whole body is one \<^verbatim>\<open>try\<close> block
  whose handler returns the empty list.
\<close>

definition get_hansard_by_date_range ::
  "env \<Rightarrow> request list \<Rightarrow> api \<Rightarrow> ustring \<Rightarrow> ustring \<Rightarrow> hansard_args \<Rightarrow> pyval list \<times> request list" where
  "get_hansard_by_date_range E log self start_date end_date kwargs =
     (case strptime E start_date of
        Inl e \<Rightarrow> ([], log)
      | Inr start_date_obj \<Rightarrow>
          (case strptime E end_date of
             Inl e \<Rightarrow> ([], log)
           | Inr end_date_obj \<Rightarrow>
               (let (hansard_data, log') = get_hansard E log self kwargs
                in if \<not> truthy hansard_data then ([], log')
                   else (case py_iter hansard_data of
                           Inl e \<Rightarrow> ([], log')
                         | Inr entries \<Rightarrow>
                             (case filter_entries E start_date_obj end_date_obj entries of
                                Inl e \<Rightarrow> ([], log')
                              | Inr filtered_speeches \<Rightarrow> (filtered_speeches, log'))))))"

section \<open>Full-text fallback fetcher\<close>

definition base_url :: ustring where
  "base_url = ustr ''https://www.openaustralia.org.au''"

definition sentinel :: ustring where
  "sentinel = ustr ''Unable to retrieve full speech.''"

text \<open>
  The exception of \<^verbatim>\<open>unescape(v).split('#')\<close> and of \<^verbatim>\<open>unescape(v).startswith('http')\<close>
  for a value \<open>v\<close> that is not a string.  \<^verbatim>\<open>unescape\<close> begins with \<^verbatim>\<open>'&' not in v\<close>: that
  raises \<^verbatim>\<open>TypeError\<close> on a value that is no container; a list or dict without \<^verbatim>\<open>'&'\<close> is
  returned as it is and has no string method (\<^verbatim>\<open>AttributeError\<close>); one with \<^verbatim>\<open>'&'\<close>
  reaches the substitution of the entities, which takes strings only (\<^verbatim>\<open>TypeError\<close>).
\<close>

definition non_string_error :: "pyval \<Rightarrow> exn" where
  "non_string_error v =
     (case v of
        PList xs \<Rightarrow> if PStr [38] \<in> set xs then TypeError else AttributeError
      | PDict kvs \<Rightarrow> if map_of kvs [38] \<noteq> None then TypeError else AttributeError
      | _ \<Rightarrow> TypeError)"

text \<open>
  \<^verbatim>\<open>if not unescaped_url.startswith('http'): full_url = urljoin(base, unescaped_url)\<close>,
  \<^verbatim>\<open>else: full_url = unescaped_url\<close>; the same lines serve the fetcher and the pipeline.
\<close>

definition absolute_url :: "env \<Rightarrow> ustring \<Rightarrow> exn + ustring" where
  "absolute_url E unescaped_url =
     (if \<not> startswith unescaped_url (ustr ''http'') then urljoin E base_url unescaped_url
      else Inr unescaped_url)"

text \<open>
  The selector chain of \<^verbatim>\<open>speechGather.py\<close>:
  \<^verbatim>\<open>soup.find('div', {'class': 'speech'}) or ... or soup.find('div', {'class': 'debate-body'})\<close>.
\<close>

definition speech_div :: "soup \<Rightarrow> ustring list option" where
  "speech_div sp =
     (case find_div sp (ustr ''class'') (ustr ''speech'') of Some d \<Rightarrow> Some d | None \<Rightarrow>
      (case find_div sp (ustr ''class'') (ustr ''speech_text'') of Some d \<Rightarrow> Some d | None \<Rightarrow>
       (case find_div sp (ustr ''id'') (ustr ''speech'') of Some d \<Rightarrow> Some d | None \<Rightarrow>
        find_div sp (ustr ''class'') (ustr ''debate-body''))))"

text \<open>
  The text taken from a parsed page in \<^verbatim>\<open>speechGather.py\<close>: the container's text, or
  all the text of the document, then \<^verbatim>\<open>' '.join(full_speech.split())\<close>.
\<close>

definition extract_speech :: "soup \<Rightarrow> ustring" where
  "extract_speech sp =
     (let full_speech =
            (case speech_div sp of
               Some d \<Rightarrow> py_strip (get_text [10] d)
             | None \<Rightarrow> py_strip (get_text [32] (strings sp)))
      in py_join [32] (py_split full_speech))"

text \<open>
  The \<^verbatim>\<open>try\<close> block of \<^verbatim>\<open>fetch_full_speech\<close> in \<^verbatim>\<open>speechGather.py\<close>, up to the parsed
  page.  An argument that is not a string makes \<^verbatim>\<open>unescape\<close> or \<^verbatim>\<open>split\<close> raise.
\<close>

definition fetch_page :: "env \<Rightarrow> request list \<Rightarrow> pyval \<Rightarrow> (exn + soup) \<times> request list" where
  "fetch_page E log url =
     (case url of
        PStr u \<Rightarrow>
          (let unescaped_url = takeWhile (\<lambda>c. c \<noteq> 35) (html_unescape E u)
           in case absolute_url E unescaped_url of
                Inl e \<Rightarrow> (Inl e, log)
              | Inr full_url \<Rightarrow>
                  (let (r, log') = requests_get E log full_url []
                   in case r of
                        Inl e \<Rightarrow> (Inl e, log')
                      | Inr response \<Rightarrow>
                          (case raise_for_status E (status_code response) of
                             Some e \<Rightarrow> (Inl e, log')
                           | None \<Rightarrow> (beautiful_soup E (content response), log'))))
      | _ \<Rightarrow> (Inl (non_string_error url), log))"

text \<open>
  \<^verbatim>\<open>fetch_full_speech\<close> of \<^verbatim>\<open>speechGather.py\<close>: the handler of the \<^verbatim>\<open>try\<close> block
  returns the sentinel for every exception.
\<close>

definition fetch_full_speech :: "env \<Rightarrow> request list \<Rightarrow> pyval \<Rightarrow> ustring \<times> request list" where
  "fetch_full_speech E log url =
     (let (r, log') = fetch_page E log url
      in case r of Inl e \<Rightarrow> (sentinel, log') | Inr sp \<Rightarrow> (extract_speech sp, log'))"

text \<open>
  \<^verbatim>\<open>fetch_full_speech\<close> of \<^verbatim>\<open>test.py\<close>.  It reaches the page by the same lines; it tries six
  selectors in a loop, returns a container's stripped text as it is, and otherwise the
  first 100000 characters of the document's text followed by \<^verbatim>\<open>'...'\<close>.
\<close>

definition possible_selectors :: "(ustring \<times> ustring) list" where
  "possible_selectors =
     [(ustr ''class'', ustr ''speech''), (ustr ''class'', ustr ''speech_text''),
      (ustr ''id'', ustr ''speech''), (ustr ''class'', ustr ''debate-body''),
      (ustr ''class'', ustr ''speech-content''), (ustr ''class'', ustr ''full-speech'')]"

fun first_match :: "soup \<Rightarrow> (ustring \<times> ustring) list \<Rightarrow> ustring list option" where
  "first_match sp [] = None"
| "first_match sp (selector # selectors) =
     (case find_div sp (fst selector) (snd selector) of
        Some d \<Rightarrow> Some d
      | None \<Rightarrow> first_match sp selectors)"

definition test_extract_speech :: "soup \<Rightarrow> ustring" where
  "test_extract_speech sp =
     (case first_match sp possible_selectors of
        Some d \<Rightarrow> py_strip (get_text [10] d)
      | None \<Rightarrow> take 100000 (py_strip (get_text [10] (strings sp))) @ ustr ''...'')"

definition test_fetch_full_speech :: "env \<Rightarrow> request list \<Rightarrow> pyval \<Rightarrow> ustring \<times> request list" where
  "test_fetch_full_speech E log url =
     (let (r, log') = fetch_page E log url
      in case r of Inl e \<Rightarrow> (sentinel, log') | Inr sp \<Rightarrow> (test_extract_speech sp, log'))"

section \<open>Reconciliation pipeline\<close>

text \<open>
  One element of \<^verbatim>\<open>speeches\<close>: the dict appended for an entry, with its keys
  \<^verbatim>\<open>'Hansard ID'\<close>, \<^verbatim>\<open>'Date'\<close>, \<^verbatim>\<open>'Speaker'\<close>, \<^verbatim>\<open>'URL'\<close> and \<^verbatim>\<open>'Speech'\<close>.
\<close>

record speech_row =
  row_id :: pyval
  row_date :: pyval
  row_speaker :: pyval
  row_url :: ustring
  row_speech :: ustring

text \<open>
  The URL column: \<^verbatim>\<open>if listurl:\<close> unescape it and make it absolute,
  \<^verbatim>\<open>else: full_url = "No URL available"\<close>.  These lines are outside any \<^verbatim>\<open>try\<close>.
\<close>

definition source_url :: "env \<Rightarrow> pyval \<Rightarrow> exn + ustring" where
  "source_url E listurl =
     (if truthy listurl then
        (case listurl of
           PStr u \<Rightarrow> absolute_url E (html_unescape E u)
         | _ \<Rightarrow> Inl (non_string_error listurl))
      else Inr (ustr ''No URL available''))"

text \<open>
  The body of the \<^verbatim>\<open>for\<close> loop of \<^verbatim>\<open>export_speeches_to_csv\<close>.  The loop is the same in
  \<^verbatim>\<open>speechGather.py\<close> and \<^verbatim>\<open>test.py\<close>; \<open>fetch\<close> is the \<^verbatim>\<open>fetch_full_speech\<close> of the file.
  A body that is not a string has no \<^verbatim>\<open>endswith\<close>.
\<close>

definition process_entry ::
  "(env \<Rightarrow> request list \<Rightarrow> pyval \<Rightarrow> ustring \<times> request list) \<Rightarrow>
   env \<Rightarrow> request list \<Rightarrow> pyval \<Rightarrow> exn + (speech_row \<times> request list)" where
  "process_entry fetch E log entry =
     (case py_get entry (ustr ''gid'') PNone of Inl e \<Rightarrow> Inl e | Inr gid \<Rightarrow>
     (case py_get entry (ustr ''hdate'') PNone of Inl e \<Rightarrow> Inl e | Inr hdate \<Rightarrow>
     (case py_get entry (ustr ''speaker'') (PDict []) of Inl e \<Rightarrow> Inl e | Inr sp \<Rightarrow>
     (case py_get sp (ustr ''full_name'') (PStr (ustr ''Unknown'')) of Inl e \<Rightarrow> Inl e | Inr full_name \<Rightarrow>
     (case py_get entry (ustr ''body'') (PStr (ustr ''No content'')) of Inl e \<Rightarrow> Inl e | Inr body \<Rightarrow>
     (case py_get entry (ustr ''listurl'') PNone of Inl e \<Rightarrow> Inl e | Inr listurl \<Rightarrow>
     (case source_url E listurl of Inl e \<Rightarrow> Inl e | Inr full_url \<Rightarrow>
     (case body of
        PStr b \<Rightarrow>
          (let (full_speech, log') =
                 (if is_truncated b then
                    (if truthy listurl then fetch E log listurl else (sentinel, log))
                  else (b, log))
           in Inr (\<lparr>row_id = gid, row_date = hdate, row_speaker = full_name,
                     row_url = full_url, row_speech = full_speech\<rparr>, log'))
      | _ \<Rightarrow> Inl AttributeError))))))))"

text \<open>
  The loop: \<^verbatim>\<open>speeches = []\<close>, then one \<^verbatim>\<open>speeches.append(...)\<close> for each entry in turn.
  An exception leaves the loop and the function.
\<close>

fun collect_speeches ::
  "(env \<Rightarrow> request list \<Rightarrow> pyval \<Rightarrow> ustring \<times> request list) \<Rightarrow>
   env \<Rightarrow> request list \<Rightarrow> speech_row list \<Rightarrow> pyval list \<Rightarrow> exn + (speech_row list \<times> request list)" where
  "collect_speeches fetch E log speeches [] = Inr (speeches, log)"
| "collect_speeches fetch E log speeches (entry # entries) =
     (case process_entry fetch E log entry of
        Inl e \<Rightarrow> Inl e
      | Inr (row, log') \<Rightarrow> collect_speeches fetch E log' (speeches @ [row]) entries)"

text \<open>
  \<^verbatim>\<open>export_speeches_to_csv\<close> of \<^verbatim>\<open>speechGather.py\<close>, from the client it has constructed
  up to the rows it hands to the spreadsheet writer: \<open>None\<close> when it only prints that no
  entries were found.
\<close>

definition export_speeches_to_csv ::
  "env \<Rightarrow> request list \<Rightarrow> api \<Rightarrow> ustring \<Rightarrow> exn + (speech_row list option \<times> request list)" where
  "export_speeches_to_csv E log oa_api person_id =
     (let (hansard_entries, log') =
            get_hansard_by_date_range E log oa_api (ustr ''2023-12-05'') (ustr ''2024-12-05'')
              \<lparr>search = PNone, person = PStr person_id, order_by = PNone, page = PNone,
               num = PNum 9999\<rparr>
      in if hansard_entries \<noteq> [] then
           (case collect_speeches fetch_full_speech E log' [] hansard_entries of
              Inl e \<Rightarrow> Inl e
            | Inr (speeches, log'') \<Rightarrow> Inr (Some speeches, log''))
         else Inr (None, log'))"

section \<open>Text normalizer\<close>

text \<open>
  The character data behind \<^verbatim>\<open>unicodedata.normalize('NFKD', text)\<close> is a parameter:
  \<open>decomp c\<close> is the full compatibility decomposition of the code point \<open>c\<close> (\<open>[c]\<close> when it
  has none) and \<open>ccc c\<close> its canonical combining class.
\<close>

record ucd =
  decomp :: "nat \<Rightarrow> ustring"
  ccc :: "nat \<Rightarrow> nat"

text \<open>
  Canonical ordering as the normalizer does it: each character in turn moves left past
  the characters before it whose combining class is larger than its own, and stops at a
  class of zero.  The prefix already ordered is kept last character first.
\<close>

fun reorder_insert :: "(nat \<Rightarrow> nat) \<Rightarrow> nat \<Rightarrow> ustring \<Rightarrow> ustring" where
  "reorder_insert cc c [] = [c]"
| "reorder_insert cc c (p # ps) =
     (if cc c \<noteq> 0 \<and> cc p \<noteq> 0 \<and> cc c < cc p then p # reorder_insert cc c ps
      else c # p # ps)"

definition canonical_order :: "(nat \<Rightarrow> nat) \<Rightarrow> ustring \<Rightarrow> ustring" where
  "canonical_order cc s = rev (foldl (\<lambda>acc c. reorder_insert cc c acc) [] s)"

definition nfkd :: "ucd \<Rightarrow> ustring \<Rightarrow> ustring" where
  "nfkd U text = canonical_order (ccc U) (concat (map (decomp U) text))"

text \<open>
  \<^verbatim>\<open>sanitize_text\<close>: \<^verbatim>\<open>encode('ascii', 'ignore')\<close> drops every code point from 128 on, and
  \<^verbatim>\<open>decode('ascii')\<close> gives the remaining ones back.  In \<^verbatim>\<open>clean.py\<close> the argument goes
  through \<^verbatim>\<open>str\<close> first, which returns a string as it is.
\<close>

definition sanitize_text :: "ucd \<Rightarrow> ustring \<Rightarrow> ustring" where
  "sanitize_text U text = filter (\<lambda>c. c < 128) (nfkd U text)"

section \<open>Well-formed input and sample data\<close>

text \<open>
  The entries the pipeline is meant for: a dict whose \<^verbatim>\<open>speaker\<close>, when present, is a
  dict, whose \<^verbatim>\<open>body\<close>, when present, is a string, and whose \<^verbatim>\<open>listurl\<close>, when it counts
  as true, is a string that can be made absolute.
\<close>

definition well_formed :: "env \<Rightarrow> pyval \<Rightarrow> bool" where
  "well_formed E entry =
     (case entry of
        PDict kvs \<Rightarrow>
          (case map_of kvs (ustr ''speaker'') of None \<Rightarrow> True | Some (PDict d) \<Rightarrow> True | Some _ \<Rightarrow> False) \<and>
          (case map_of kvs (ustr ''body'') of None \<Rightarrow> True | Some (PStr b) \<Rightarrow> True | Some _ \<Rightarrow> False) \<and>
          (case map_of kvs (ustr ''listurl'') of
             None \<Rightarrow> True
           | Some (PStr u) \<Rightarrow>
               u = [] \<or> (case absolute_url E (html_unescape E u) of Inl e \<Rightarrow> False | Inr full_url \<Rightarrow> True)
           | Some v \<Rightarrow> \<not> truthy v)
      | _ \<Rightarrow> False)"

text \<open>
  Character data with the property every version of the Unicode tables has: a code point
  below 128 has no decomposition and combining class zero.
\<close>

definition ascii_fixed :: "ucd \<Rightarrow> bool" where
  "ascii_fixed U = list_all (\<lambda>c. decomp U c = [c] \<and> ccc U c = 0) [0..<128]"

text \<open>
  A small sample of the character data: U+00E9 decomposes to \<open>e\<close> and U+0301 (class 230),
  U+FB01 to \<open>f\<close>, \<open>i\<close>; U+0323 has class 220.
\<close>

definition sample_ucd :: ucd where
  "sample_ucd =
     \<lparr>decomp = (\<lambda>c. if c = 233 then [101, 769] else if c = 64257 then [102, 105] else [c]),
      ccc = (\<lambda>c. if c = 769 then 230 else if c = 803 then 220 else 0)\<rparr>"

text \<open>
  \<^verbatim>\<open>datetime.strptime(s, "%Y-%m-%d")\<close> on ASCII digits, for the samples: four digits of
  year, a month \<^verbatim>\<open>1[0-2]|0[1-9]|[1-9]\<close>, a day \<^verbatim>\<open>3[0-1]|[1-2]\d|0[1-9]|[1-9]| [1-9]\<close>, nothing
  left over, and a date that exists.
\<close>

definition is_digit :: "nat \<Rightarrow> bool" where
  "is_digit c = (48 \<le> c \<and> c \<le> 57)"

fun parse_month :: "ustring \<Rightarrow> (nat \<times> ustring) option" where
  "parse_month (a # b # r) =
     (if a = 49 \<and> 48 \<le> b \<and> b \<le> 50 \<and> take 1 r = [45] then Some (10 + (b - 48), drop 1 r)
      else if a = 48 \<and> 49 \<le> b \<and> b \<le> 57 \<and> take 1 r = [45] then Some (b - 48, drop 1 r)
      else if 49 \<le> a \<and> a \<le> 57 \<and> b = 45 then Some (a - 48, r)
      else None)"
| "parse_month r = None"

fun parse_day :: "ustring \<Rightarrow> nat option" where
  "parse_day [a] = (if 49 \<le> a \<and> a \<le> 57 then Some (a - 48) else None)"
| "parse_day [a, b] =
     (if a = 51 \<and> (b = 48 \<or> b = 49) then Some (30 + (b - 48))
      else if (a = 49 \<or> a = 50) \<and> is_digit b then Some (10 * (a - 48) + (b - 48))
      else if (a = 48 \<or> a = 32) \<and> 49 \<le> b \<and> b \<le> 57 then Some (b - 48)
      else None)"
| "parse_day r = None"

definition days_in_month :: "nat \<Rightarrow> nat \<Rightarrow> nat" where
  "days_in_month y m =
     (if m = 2 then (if y mod 4 = 0 \<and> (y mod 100 \<noteq> 0 \<or> y mod 400 = 0) then 29 else 28)
      else if m = 4 \<or> m = 6 \<or> m = 9 \<or> m = 11 then 30 else 31)"

definition strptime_ymd :: "ustring \<Rightarrow> exn + date" where
  "strptime_ymd s =
     (if length s < 5 \<or> \<not> list_all is_digit (take 4 s) \<or> s ! 4 \<noteq> 45 then Inl ValueError
      else
        (let y = foldl (\<lambda>n c. 10 * n + (c - 48)) 0 (take 4 s)
         in case parse_month (drop 5 s) of
              None \<Rightarrow> Inl ValueError
            | Some (m, r) \<Rightarrow>
                (case parse_day r of
                   None \<Rightarrow> Inl ValueError
                 | Some d \<Rightarrow>
                     if y = 0 \<or> days_in_month y m < d then Inl ValueError else Inr (y, m, d))))"

text \<open>
  A sample environment: every request gets the answer \<open>r\<close>, whose content decodes to
  \<open>j\<close> as JSON and parses to \<open>p\<close> as a page.  The locators of the samples hold no entity,
  so unescaping leaves them as they are, and they are absolute paths, which \<^verbatim>\<open>urljoin\<close>
  appends to the origin.  A status from 400 to 599 is the one \<^verbatim>\<open>raise_for_status\<close> raises on.
\<close>

definition sample_env :: "(exn + response) \<Rightarrow> (exn + pyval) \<Rightarrow> (exn + soup) \<Rightarrow> env" where
  "sample_env r j p =
     \<lparr>html_unescape = (\<lambda>u. u),
      urljoin = (\<lambda>base u. Inr (base @ u)),
      respond = (\<lambda>log req. r),
      raise_for_status = (\<lambda>code. if 400 \<le> code \<and> code < 600 then Some HTTPError else None),
      json_loads = (\<lambda>c. j),
      beautiful_soup = (\<lambda>c. p),
      strptime = strptime_ymd\<rparr>"

definition ok_response :: response where
  "ok_response = \<lparr>status_code = 200, content = []\<rparr>"

text \<open>A page with no \<^verbatim>\<open>div\<close> at all and one text of a million letters.\<close>

definition long_page :: soup where
  "long_page = \<lparr>find_div = (\<lambda>a v. None), strings = [replicate 1000000 97]\<rparr>"

text \<open>
  A page whose \<^verbatim>\<open>div\<close> of class \<^verbatim>\<open>speech\<close> holds the full remarks in two strings.
\<close>

definition budget_page :: soup where
  "budget_page =
     \<lparr>find_div = (\<lambda>a v. if a = ustr ''class'' \<and> v = ustr ''speech''
                          then Some [ustr ''Full remarks on'', ustr '' the budget bill.'']
                          else None),
      strings = [ustr ''OpenAustralia'', ustr ''Full remarks on'', ustr '' the budget bill.'']\<rparr>"

text \<open>
  Three entries: a truncated body with a detail URL, a body of 500 letters with a detail
  URL, and a truncated body without one.
\<close>

definition truncated_entry :: pyval where
  "truncated_entry =
     PDict [(ustr ''gid'', PStr (ustr ''2024-02-06.3.1'')), (ustr ''hdate'', PStr (ustr ''2024-02-06'')),
            (ustr ''speaker'', PDict [(ustr ''full_name'', PStr (ustr ''A Member''))]),
            (ustr ''body'', PStr (ustr ''Thank you Mr Speaker...'')),
            (ustr ''listurl'', PStr (ustr ''/debates/?id=2024-02-06.3.1#g3.2''))]"

definition complete_entry :: pyval where
  "complete_entry =
     PDict [(ustr ''gid'', PStr (ustr ''2024-02-07.4.1'')), (ustr ''hdate'', PStr (ustr ''2024-02-07'')),
            (ustr ''body'', PStr (replicate 500 97)),
            (ustr ''listurl'', PStr (ustr ''/debates/?id=2024-02-07.4.1''))]"

definition orphan_entry :: pyval where
  "orphan_entry =
     PDict [(ustr ''gid'', PStr (ustr ''2024-02-08.5.1'')), (ustr ''hdate'', PStr (ustr ''2024-02-08'')),
            (ustr ''body'', PStr (ustr ''Thank you Mr Speaker...''))]"

text \<open>An entry that holds a date and nothing else.\<close>

definition dated_entry :: "string \<Rightarrow> pyval" where
  "dated_entry d = PDict [(ustr ''hdate'', PStr (ustr d))]"

definition sample_api :: api where
  "sample_api = \<lparr>api_key = ustr ''k'', api_url = ustr ''https://www.openaustralia.org.au/api''\<rparr>"

definition sample_args :: hansard_args where
  "sample_args = \<lparr>search = PNone, person = PStr (ustr ''10809''), order_by = PNone, page = PNone,
                   num = PNum 9999\<rparr>"

section \<open>Facts about the string operations\<close>

lemma endswith_iff_suffix: "endswith s p \<longleftrightarrow> suffix p s"
proof
  assume "endswith s p"
  then have "s = take (length s - length p) s @ p"
    by (metis append_take_drop_id endswith_def)
  then show "suffix p s"
    by (metis suffixI)
next
  assume "suffix p s"
  then obtain q where "s = q @ p"
    by (auto simp: suffix_def)
  then show "endswith s p"
    by (simp add: endswith_def)
qed

lemma startswith_iff_prefix: "startswith s p \<longleftrightarrow> prefix p s"
  by (metis startswith_def append_eq_conv_conj prefix_def append_take_drop_id)

lemma py_in_iff_sublist: "py_in sub s \<longleftrightarrow> sublist sub s"
  by (induction s) (auto simp: sublist_Cons_right startswith_iff_prefix)

lemma dropWhile_replicate_append:
  "dropWhile P (replicate n x @ ys) =
     (if P x \<or> n = 0 then dropWhile P ys else replicate n x @ ys)"
  by (induction n) auto

lemma py_strip_replicate: "\<not> is_space a \<Longrightarrow> py_strip (replicate n a) = replicate n a"
  using dropWhile_replicate_append [of is_space n a "[]"]
  by (simp add: py_strip_def)

lemma split_words_replicate:
  "\<not> is_space a \<Longrightarrow> split_words cur (replicate n a) =
     (if cur = [] \<and> n = 0 then [] else [rev cur @ replicate n a])"
proof (induction n arbitrary: cur)
  case 0
  then show ?case by simp
next
  case (Suc n)
  then show ?case
    by (simp add: replicate_append_same)
qed

lemma not_truncated_replicate:
  "200 \<le> n \<Longrightarrow> a \<noteq> 46 \<Longrightarrow> a \<noteq> 38 \<Longrightarrow> \<not> is_truncated (replicate n a)"
  by (auto simp: is_truncated_def endswith_iff_suffix py_in_iff_sublist ustr_def
      dest!: set_mono_suffix set_mono_sublist)

section \<open>The truncation heuristic: claims C3 and C4\<close>

text \<open>
  Claim C3 says that a body whose length after trimming whitespace is below 200 is
  classified as truncated, whatever its untrimmed length.  The condition of the program
  measures \<^verbatim>\<open>len(body)\<close>, with no trimming: a body of 150 letters followed by 60 spaces has
  150 characters after trimming and is not classified as truncated.
\<close>

theorem is_truncated_trimmed_counterexample:
  "length (py_strip (replicate 150 97 @ replicate 60 32)) < 200 \<and>
   \<not> is_truncated (replicate 150 97 @ replicate 60 32)"
proof -
  have "py_strip (replicate 150 97 @ replicate 60 32) = replicate 150 97"
    by (simp add: py_strip_def is_space_def dropWhile_replicate_append)
  moreover have "\<not> suffix (ustr ''...'') (replicate 150 97 @ replicate 60 32)"
    by (auto simp: ustr_def dest!: set_mono_suffix)
  moreover have "\<not> sublist (ustr ''&#'') (replicate 150 97 @ replicate 60 32)"
    by (auto simp: ustr_def dest!: set_mono_sublist)
  ultimately show ?thesis
    by (simp add: is_truncated_def endswith_iff_suffix py_in_iff_sublist)
qed

text \<open>
  Claim C3, amended: every body whose untrimmed length is below 200 characters is
  classified as truncated.
\<close>

theorem is_truncated_short: "length body < 200 \<Longrightarrow> is_truncated body"
  by (simp add: is_truncated_def)

theorem is_truncated_short_witness:
  "length (ustr ''Short body'') < 200 \<and> is_truncated (ustr ''Short body'')"
  using is_truncated_short [of "ustr ''Short body''"] by (simp add: ustr_def)

text \<open>
  Claim C4: a body that ends with \<^verbatim>\<open>...\<close> or contains \<^verbatim>\<open>&#\<close> is classified as truncated
  whatever its length, and a body of at least 200 characters that does neither is not.
  Ending and containment are stated with \<^const>\<open>suffix\<close> and \<^const>\<open>sublist\<close>.
\<close>

theorem is_truncated_markers:
  "(suffix (ustr ''...'') body \<or> sublist (ustr ''&#'') body \<longrightarrow> is_truncated body) \<and>
   (200 \<le> length body \<and> \<not> suffix (ustr ''...'') body \<and> \<not> sublist (ustr ''&#'') body
      \<longrightarrow> \<not> is_truncated body)"
  by (auto simp: is_truncated_def endswith_iff_suffix py_in_iff_sublist)

theorem is_truncated_markers_witness:
  "is_truncated (ustr ''Thank you Mr Speaker...'') \<and>
   is_truncated (replicate 300 97 @ ustr ''&#8217;'') \<and>
   \<not> is_truncated (replicate 500 97)"
proof -
  have 1: "suffix (ustr ''...'') (ustr ''Thank you Mr Speaker...'')"
    by (simp add: endswith_iff_suffix [symmetric] endswith_def ustr_def)
  have "py_in (ustr ''&#'') (ustr ''&#8217;'')"
    by (simp add: ustr_def startswith_def)
  then have 2: "sublist (ustr ''&#'') (replicate 300 97 @ ustr ''&#8217;'')"
    by (simp add: py_in_iff_sublist sublist_append)
  have 3: "\<not> suffix (ustr ''...'') (replicate 500 97)"
    by (auto simp: ustr_def dest!: set_mono_suffix)
  have 4: "\<not> sublist (ustr ''&#'') (replicate 500 97)"
    by (auto simp: ustr_def dest!: set_mono_sublist)
  show ?thesis
    using is_truncated_markers [of "ustr ''Thank you Mr Speaker...''"]
      is_truncated_markers [of "replicate 300 97 @ ustr ''&#8217;''"]
      is_truncated_markers [of "replicate 500 97"] 1 2 3 4
    by simp
qed

section \<open>The text normalizer: claims C9 and C10\<close>

lemma reorder_insert_starter: "cc c = 0 \<Longrightarrow> reorder_insert cc c ps = c # ps"
  by (cases ps) auto

lemma foldl_reorder_starters:
  "\<forall>c\<in>set s. cc c = 0 \<Longrightarrow> foldl (\<lambda>acc c. reorder_insert cc c acc) acc s = rev s @ acc"
  by (induction s arbitrary: acc) (auto simp: reorder_insert_starter)

lemma canonical_order_starters: "\<forall>c\<in>set s. cc c = 0 \<Longrightarrow> canonical_order cc s = s"
  by (simp add: canonical_order_def foldl_reorder_starters)

lemma ascii_fixedD: "ascii_fixed U \<Longrightarrow> c < 128 \<Longrightarrow> decomp U c = [c] \<and> ccc U c = 0"
  by (simp add: ascii_fixed_def list_all_iff)

lemma concat_decomp_ascii:
  "ascii_fixed U \<Longrightarrow> \<forall>c\<in>set s. c < 128 \<Longrightarrow> concat (map (decomp U) s) = s"
  by (induction s) (auto dest: ascii_fixedD)

lemma nfkd_ascii: "ascii_fixed U \<Longrightarrow> \<forall>c\<in>set s. c < 128 \<Longrightarrow> nfkd U s = s"
  by (simp add: nfkd_def concat_decomp_ascii canonical_order_starters ascii_fixedD)

lemma ascii_fixed_sample: "ascii_fixed sample_ucd"
  by (auto simp: ascii_fixed_def sample_ucd_def list_all_iff)

text \<open>
  Claim C9: \<^verbatim>\<open>sanitize_text\<close> is idempotent.  The character data is that of the Unicode
  tables, in which the code points below 128 have no decomposition and combining class
  zero; the result of \<^verbatim>\<open>sanitize_text\<close> holds such code points only.
\<close>

theorem sanitize_text_idempotent:
  assumes "ascii_fixed U"
  shows "sanitize_text U (sanitize_text U x) = sanitize_text U x"
proof -
  have "\<forall>c\<in>set (sanitize_text U x). c < 128"
    by (simp add: sanitize_text_def)
  then have "nfkd U (sanitize_text U x) = sanitize_text U x"
    using assms by (rule nfkd_ascii [rotated])
  then show ?thesis
    by (simp add: sanitize_text_def)
qed

theorem sanitize_text_idempotent_witness:
  "ascii_fixed sample_ucd \<and>
   sanitize_text sample_ucd [233, 116, 233, 32, 64257, 8364] = ustr ''ete fi'' \<and>
   sanitize_text sample_ucd (sanitize_text sample_ucd [233, 116, 233, 32, 64257, 8364]) =
     sanitize_text sample_ucd [233, 116, 233, 32, 64257, 8364]"
proof -
  have "sanitize_text sample_ucd [233, 116, 233, 32, 64257, 8364] = ustr ''ete fi''"
    by (simp add: sanitize_text_def nfkd_def canonical_order_def sample_ucd_def ustr_def)
  then show ?thesis
    using sanitize_text_idempotent [OF ascii_fixed_sample, of "[233, 116, 233, 32, 64257, 8364]"]
      ascii_fixed_sample
    by simp
qed

text \<open>
  Claim C10: \<^verbatim>\<open>sanitize_text\<close> returns a string of code points below 128 unchanged,
  control characters such as newline and tab included, since the decomposition fixes
  these code points and the ASCII round trip drops none of them.
\<close>

theorem sanitize_text_ascii_identity:
  assumes "ascii_fixed U" and "\<forall>c\<in>set text. c < 128"
  shows "sanitize_text U text = text"
  using assms by (simp add: sanitize_text_def nfkd_ascii)

theorem sanitize_text_ascii_identity_witness:
  "ascii_fixed sample_ucd \<and> list_all (\<lambda>c. c < 128) [76, 105, 110, 101, 10, 9, 50, 0, 127::nat] \<and>
   sanitize_text sample_ucd [76, 105, 110, 101, 10, 9, 50, 0, 127] =
     [76, 105, 110, 101, 10, 9, 50, 0, 127]"
proof -
  have h: "\<forall>c\<in>set [76, 105, 110, 101, 10, 9, 50, 0, 127]. c < (128::nat)"
    by simp
  show ?thesis
    using sanitize_text_ascii_identity [OF ascii_fixed_sample h] ascii_fixed_sample h
    by simp
qed

section \<open>The fallback fetcher: claims C5 and C8\<close>

lemma fetch_page_str:
  "fetch_page E log (PStr u) =
     (case absolute_url E (takeWhile (\<lambda>c. c \<noteq> 35) (html_unescape E u)) of
        Inl e \<Rightarrow> (Inl e, log)
      | Inr full_url \<Rightarrow>
          (case respond E log (full_url, []) of
             Inl e \<Rightarrow> (Inl e, log @ [(full_url, [])])
           | Inr response \<Rightarrow>
               (case raise_for_status E (status_code response) of
                  Some e \<Rightarrow> (Inl e, log @ [(full_url, [])])
                | None \<Rightarrow> (beautiful_soup E (content response), log @ [(full_url, [])]))))"
  by (simp add: fetch_page_def requests_get_def split: sum.splits option.splits)

lemma fetch_page_not_str:
  "(\<forall>s. v \<noteq> PStr s) \<Longrightarrow> fetch_page E log v = (Inl (non_string_error v), log)"
  by (cases v) (simp_all add: fetch_page_def)

lemma fetch_full_speech_fst:
  "fst (fetch_full_speech E log url) =
     (case fst (fetch_page E log url) of Inl e \<Rightarrow> sentinel | Inr sp \<Rightarrow> extract_speech sp)"
  by (simp add: fetch_full_speech_def split: prod.splits sum.splits)

lemma test_fetch_full_speech_fst:
  "fst (test_fetch_full_speech E log url) =
     (case fst (fetch_page E log url) of Inl e \<Rightarrow> sentinel | Inr sp \<Rightarrow> test_extract_speech sp)"
  by (simp add: test_fetch_full_speech_def split: prod.splits sum.splits)

lemma sample_target:
  "absolute_url (sample_env r j p) (takeWhile (\<lambda>c. c \<noteq> 35) (html_unescape (sample_env r j p) (ustr ''/debates/?id=2024-02-06.3.1#g3.2''))) = Inr (ustr ''https://www.openaustralia.org.au/debates/?id=2024-02-06.3.1'')"
  by (simp add: absolute_url_def sample_env_def ustr_def startswith_def base_url_def)

lemma ustr_eq_Nil: "ustr s = [] \<longleftrightarrow> s = []"
  by (simp add: ustr_def)

lemma extract_budget_page: "extract_speech budget_page = ustr ''Full remarks on the budget bill.''"
  by (simp add: extract_speech_def speech_div_def budget_page_def get_text_def)
    (simp add: py_strip_def py_split_def is_space_def ustr_def)

lemma sample_raise_for_status:
  "raise_for_status (sample_env r j p) = requests_raise_for_status"
  by (simp add: sample_env_def requests_raise_for_status_def fun_eq_iff)

text \<open>
  Claim C5 says that \<^verbatim>\<open>fetch_full_speech\<close> returns the sentinel on every error, a response
  that is not 2xx among them.  The function checks the status with
  \<^verbatim>\<open>response.raise_for_status()\<close> alone, which raises from 400 to 599 only: a response with
  status 304 is parsed like any other page, and its text is returned.
\<close>

theorem fetch_not_modified_counterexample:
  "fst (fetch_full_speech
     (sample_env (Inr \<lparr>status_code = 304, content = []\<rparr>) (Inl ValueError) (Inr budget_page)) []
     (PStr (ustr ''/debates/?id=2024-02-06.3.1#g3.2''))) = ustr ''Full remarks on the budget bill.'' \<and>
   fst (fetch_full_speech
     (sample_env (Inr \<lparr>status_code = 304, content = []\<rparr>) (Inl ValueError) (Inr budget_page)) []
     (PStr (ustr ''/debates/?id=2024-02-06.3.1#g3.2''))) \<noteq> sentinel"
proof -
  have "fst (fetch_full_speech
     (sample_env (Inr \<lparr>status_code = 304, content = []\<rparr>) (Inl ValueError) (Inr budget_page)) []
     (PStr (ustr ''/debates/?id=2024-02-06.3.1#g3.2''))) = ustr ''Full remarks on the budget bill.''"
    by (simp add: fetch_full_speech_fst fetch_page_str sample_target)
      (simp add: sample_env_def extract_budget_page)
  then show ?thesis
    by (simp add: sentinel_def ustr_def)
qed

text \<open>
  Claim C5, amended: \<^verbatim>\<open>fetch_full_speech\<close> never raises and its result is a string in
  every case.  It returns the sentinel when the locator cannot be made absolute, when
  the request raises (an unreachable URL, a network failure), when the status of the
  response is from 400 to 599, when the page cannot be parsed, and when its argument is
  no string; a response with any other status, 2xx or not, is parsed and the text
  extracted from it is returned.  A failure of the fetcher thus never ends the processing
  of the remaining records.
\<close>

theorem fetch_full_speech_absorbs_errors:
  assumes "target = absolute_url E (takeWhile (\<lambda>c. c \<noteq> 35) (html_unescape E u))"
    and "raise_for_status E = requests_raise_for_status"
  shows
    "(\<forall>e. target = Inl e \<longrightarrow> fst (fetch_full_speech E log (PStr u)) = sentinel) \<and>
     (\<forall>full_url e. target = Inr full_url \<and> respond E log (full_url, []) = Inl e \<longrightarrow>
        fst (fetch_full_speech E log (PStr u)) = sentinel) \<and>
     (\<forall>full_url response. target = Inr full_url \<and> respond E log (full_url, []) = Inr response \<and>
        400 \<le> status_code response \<and> status_code response < 600 \<longrightarrow>
        fst (fetch_full_speech E log (PStr u)) = sentinel) \<and>
     (\<forall>full_url response e. target = Inr full_url \<and> respond E log (full_url, []) = Inr response \<and>
        \<not> (400 \<le> status_code response \<and> status_code response < 600) \<and>
        beautiful_soup E (content response) = Inl e \<longrightarrow>
        fst (fetch_full_speech E log (PStr u)) = sentinel) \<and>
     (\<forall>full_url response sp. target = Inr full_url \<and> respond E log (full_url, []) = Inr response \<and>
        \<not> (400 \<le> status_code response \<and> status_code response < 600) \<and>
        beautiful_soup E (content response) = Inr sp \<longrightarrow>
        fst (fetch_full_speech E log (PStr u)) = extract_speech sp) \<and>
     (\<forall>v. (\<forall>s. v \<noteq> PStr s) \<longrightarrow> fst (fetch_full_speech E log v) = sentinel)"
  using assms
  by (auto simp: fetch_full_speech_fst fetch_page_str fetch_page_not_str
      requests_raise_for_status_def)

theorem fetch_full_speech_absorbs_errors_witness:
  "fst (fetch_full_speech (sample_env (Inl RequestException) (Inl ValueError) (Inl ValueError)) []
     (PStr (ustr ''/debates/?id=2024-02-06.3.1#g3.2''))) = sentinel \<and>
   fst (fetch_full_speech
     (sample_env (Inr \<lparr>status_code = 404, content = []\<rparr>) (Inl ValueError) (Inr budget_page)) []
     (PStr (ustr ''/debates/?id=2024-02-06.3.1#g3.2''))) = sentinel \<and>
   fst (fetch_full_speech
     (sample_env (Inr \<lparr>status_code = 599, content = []\<rparr>) (Inl ValueError) (Inr budget_page)) []
     (PStr (ustr ''/debates/?id=2024-02-06.3.1#g3.2''))) = sentinel \<and>
   fst (fetch_full_speech (sample_env (Inr ok_response) (Inl ValueError) (Inl ValueError)) []
     (PStr (ustr ''/debates/?id=2024-02-06.3.1#g3.2''))) = sentinel \<and>
   fst (fetch_full_speech (sample_env (Inr ok_response) (Inl ValueError) (Inr budget_page)) []
     (PStr (ustr ''/debates/?id=2024-02-06.3.1#g3.2''))) = ustr ''Full remarks on the budget bill.'' \<and>
   fst (fetch_full_speech
     (sample_env (Inr \<lparr>status_code = 600, content = []\<rparr>) (Inl ValueError) (Inr budget_page)) []
     (PStr (ustr ''/debates/?id=2024-02-06.3.1#g3.2''))) = ustr ''Full remarks on the budget bill.'' \<and>
   fst (fetch_full_speech (sample_env (Inr ok_response) (Inl ValueError) (Inr budget_page)) []
     (PList [PStr (ustr ''/debates/'')])) = sentinel"
  using
    fetch_full_speech_absorbs_errors [OF refl
        sample_raise_for_status [of "Inl RequestException" "Inl ValueError" "Inl ValueError"],
      where u = "ustr ''/debates/?id=2024-02-06.3.1#g3.2''" and log = "[]"]
    fetch_full_speech_absorbs_errors [OF refl
        sample_raise_for_status [of "Inr \<lparr>status_code = 404, content = []\<rparr>" "Inl ValueError" "Inr budget_page"],
      where u = "ustr ''/debates/?id=2024-02-06.3.1#g3.2''" and log = "[]"]
    fetch_full_speech_absorbs_errors [OF refl
        sample_raise_for_status [of "Inr \<lparr>status_code = 599, content = []\<rparr>" "Inl ValueError" "Inr budget_page"],
      where u = "ustr ''/debates/?id=2024-02-06.3.1#g3.2''" and log = "[]"]
    fetch_full_speech_absorbs_errors [OF refl
        sample_raise_for_status [of "Inr ok_response" "Inl ValueError" "Inl ValueError"],
      where u = "ustr ''/debates/?id=2024-02-06.3.1#g3.2''" and log = "[]"]
    fetch_full_speech_absorbs_errors [OF refl
        sample_raise_for_status [of "Inr ok_response" "Inl ValueError" "Inr budget_page"],
      where u = "ustr ''/debates/?id=2024-02-06.3.1#g3.2''" and log = "[]"]
    fetch_full_speech_absorbs_errors [OF refl
        sample_raise_for_status [of "Inr \<lparr>status_code = 600, content = []\<rparr>" "Inl ValueError" "Inr budget_page"],
      where u = "ustr ''/debates/?id=2024-02-06.3.1#g3.2''" and log = "[]"]
  by (simp add: sample_target) (simp add: sample_env_def ok_response_def extract_budget_page)

lemma extract_long_page: "extract_speech long_page = replicate 1000000 97"
  by (simp add: extract_speech_def speech_div_def long_page_def get_text_def is_space_def
      py_strip_replicate py_split_def split_words_replicate)

lemma fetch_long_page:
  "fst (fetch_page (sample_env (Inr ok_response) (Inl ValueError) (Inr long_page)) []
     (PStr (ustr ''/debates/?id=2024-02-06.3.1#g3.2''))) = Inr long_page"
  by (simp add: fetch_page_str sample_target) (simp add: sample_env_def ok_response_def)

text \<open>
  Claim C8 says that the branch taken when no container matches caps its result at a
  fixed maximum of about 100000 characters.  \<^verbatim>\<open>fetch_full_speech\<close> of \<^verbatim>\<open>speechGather.py\<close> has
  no cap: for a page without any \<^verbatim>\<open>div\<close> whose text is a million letters it returns all
  of them.
\<close>

theorem no_cap_counterexample:
  "speech_div long_page = None \<and>
   fst (fetch_page (sample_env (Inr ok_response) (Inl ValueError) (Inr long_page)) []
     (PStr (ustr ''/debates/?id=2024-02-06.3.1#g3.2''))) = Inr long_page \<and>
   length (fst (fetch_full_speech (sample_env (Inr ok_response) (Inl ValueError) (Inr long_page)) []
     (PStr (ustr ''/debates/?id=2024-02-06.3.1#g3.2'')))) = 1000000"
  by (simp add: fetch_full_speech_fst fetch_long_page extract_long_page)
    (simp add: speech_div_def long_page_def)

text \<open>
  Claim C8, amended: when no container matches, \<^verbatim>\<open>fetch_full_speech\<close> of
  \<^verbatim>\<open>speechGather.py\<close> returns all the text of the document, joined by single spaces, with
  its whitespace collapsed and no cap on its length; the copy of the function in
  \<^verbatim>\<open>test.py\<close> returns the first 100000 characters of the stripped text of the document
  followed by \<^verbatim>\<open>...\<close>, at most 100003 characters.
\<close>

theorem no_container_branch:
  assumes "fst (fetch_page E log url) = Inr sp"
  shows
    "(speech_div sp = None \<longrightarrow>
        fst (fetch_full_speech E log url) =
          py_join [32] (py_split (py_strip (py_join [32] (strings sp))))) \<and>
     (first_match sp possible_selectors = None \<longrightarrow>
        fst (test_fetch_full_speech E log url) =
          take 100000 (py_strip (py_join [10] (strings sp))) @ ustr ''...'' \<and>
        length (fst (test_fetch_full_speech E log url)) \<le> 100003)"
  using assms
  by (simp add: fetch_full_speech_fst test_fetch_full_speech_fst extract_speech_def
      test_extract_speech_def get_text_def ustr_def)

theorem no_container_branch_witness:
  "speech_div long_page = None \<and> first_match long_page possible_selectors = None \<and>
   fst (fetch_full_speech (sample_env (Inr ok_response) (Inl ValueError) (Inr long_page)) []
     (PStr (ustr ''/debates/?id=2024-02-06.3.1#g3.2''))) = replicate 1000000 97 \<and>
   fst (test_fetch_full_speech (sample_env (Inr ok_response) (Inl ValueError) (Inr long_page)) []
     (PStr (ustr ''/debates/?id=2024-02-06.3.1#g3.2''))) = replicate 100000 97 @ ustr ''...'' \<and>
   length (fst (test_fetch_full_speech (sample_env (Inr ok_response) (Inl ValueError) (Inr long_page)) []
     (PStr (ustr ''/debates/?id=2024-02-06.3.1#g3.2'')))) \<le> 100003"
proof -
  have 1: "speech_div long_page = None"
    by (simp add: speech_div_def long_page_def)
  have 2: "first_match long_page possible_selectors = None"
    by (simp add: possible_selectors_def long_page_def)
  have 3: "py_join [32] (py_split (py_strip (py_join [32] (strings long_page)))) = replicate 1000000 97"
    by (simp add: long_page_def is_space_def py_strip_replicate py_split_def split_words_replicate)
  have 4: "take 100000 (py_strip (py_join [10] (strings long_page))) = replicate 100000 97"
    by (simp add: long_page_def is_space_def py_strip_replicate)
  show ?thesis
    using no_container_branch [OF fetch_long_page] 1 2 3 4
    by (simp add: ustr_def)
qed

section \<open>The reconciliation pipeline: claims C1 and C2\<close>

lemma well_formedD:
  assumes "well_formed E entry"
  obtains kvs sp b listurl full_url where
    "entry = PDict kvs"
    "py_get entry (ustr ''speaker'') (PDict []) = Inr (PDict sp)"
    "py_get entry (ustr ''body'') (PStr (ustr ''No content'')) = Inr (PStr b)"
    "py_get entry (ustr ''listurl'') PNone = Inr listurl"
    "source_url E listurl = Inr full_url"
proof -
  from assms obtain kvs where kvs: "entry = PDict kvs"
    by (cases entry) (simp_all add: well_formed_def)
  from assms kvs obtain sp where sp: "py_get entry (ustr ''speaker'') (PDict []) = Inr (PDict sp)"
    by (auto simp: well_formed_def split: option.splits pyval.splits)
  from assms kvs obtain b where b: "py_get entry (ustr ''body'') (PStr (ustr ''No content'')) = Inr (PStr b)"
    by (auto simp: well_formed_def split: option.splits pyval.splits)
  obtain listurl where l: "py_get entry (ustr ''listurl'') PNone = Inr listurl"
    using kvs by simp
  from assms kvs l have "\<exists>full_url. source_url E listurl = Inr full_url"
    by (cases "map_of kvs (ustr ''listurl'')"; cases listurl)
      (auto simp: well_formed_def source_url_def split: option.splits pyval.splits sum.splits)
  then obtain full_url where "source_url E listurl = Inr full_url" ..
  with kvs sp b l show ?thesis
    by (rule that)
qed

lemma process_entry_steps:
  assumes "entry = PDict kvs"
    and "py_get entry (ustr ''speaker'') (PDict []) = Inr (PDict sp)"
    and "py_get entry (ustr ''body'') (PStr (ustr ''No content'')) = Inr (PStr b)"
    and "py_get entry (ustr ''listurl'') PNone = Inr listurl"
    and "source_url E listurl = Inr full_url"
  shows "\<exists>row log'. process_entry fetch E log entry = Inr (row, log') \<and>
     Inr (row_id row) = py_get entry (ustr ''gid'') PNone \<and>
     (row_speech row, log') =
       (if is_truncated b then (if truthy listurl then fetch E log listurl else (sentinel, log))
        else (b, log))"
  using assms
  by (simp add: process_entry_def split: prod.splits)



text \<open>
  Claim C1: for every well-formed entry the loop body completes, and the text it records
  follows the case rule.  When the body is truncated and the detail URL counts as true,
  the text and the requests made are those of \<^verbatim>\<open>fetch_full_speech\<close> on that URL; when the
  body is not truncated the text is the body as it is and no request is made, whatever
  the URL; when the body is truncated and there is no URL the text is the sentinel and no
  request is made.  A missing body counts as \<^verbatim>\<open>'No content'\<close>.
\<close>

theorem full_text_rule:
  assumes "well_formed E entry"
  shows "\<exists>row log' body listurl.
      process_entry fetch_full_speech E log entry = Inr (row, log') \<and>
      py_get entry (ustr ''body'') (PStr (ustr ''No content'')) = Inr (PStr body) \<and>
      py_get entry (ustr ''listurl'') PNone = Inr listurl \<and>
      (is_truncated body \<and> truthy listurl \<longrightarrow>
         (row_speech row, log') = fetch_full_speech E log listurl) \<and>
      (\<not> is_truncated body \<longrightarrow> row_speech row = body \<and> log' = log) \<and>
      (is_truncated body \<and> \<not> truthy listurl \<longrightarrow> row_speech row = sentinel \<and> log' = log)"
proof -
  from assms obtain kvs sp b listurl full_url where
    steps: "entry = PDict kvs"
      "py_get entry (ustr ''speaker'') (PDict []) = Inr (PDict sp)"
      "py_get entry (ustr ''body'') (PStr (ustr ''No content'')) = Inr (PStr b)"
      "py_get entry (ustr ''listurl'') PNone = Inr listurl"
      "source_url E listurl = Inr full_url"
    by (rule well_formedD)
  from process_entry_steps [OF steps, of fetch_full_speech log] obtain row log' where
    "process_entry fetch_full_speech E log entry = Inr (row, log')"
    "(row_speech row, log') =
       (if is_truncated b then (if truthy listurl then fetch_full_speech E log listurl else (sentinel, log))
        else (b, log))"
    by blast
  with steps(3,4) show ?thesis
    by (intro exI [of _ row] exI [of _ log'] exI [of _ b] exI [of _ listurl]) auto
qed



lemma well_formed_samples:
  "well_formed (sample_env r j p) truncated_entry"
  "well_formed (sample_env r j p) complete_entry"
  "well_formed (sample_env r j p) orphan_entry"
  by (simp_all add: well_formed_def truncated_entry_def complete_entry_def orphan_entry_def
      absolute_url_def sample_env_def startswith_def ustr_def)

lemma sample_fields:
  "py_get truncated_entry (ustr ''body'') (PStr (ustr ''No content'')) =
     Inr (PStr (ustr ''Thank you Mr Speaker...''))"
  "py_get truncated_entry (ustr ''listurl'') PNone =
     Inr (PStr (ustr ''/debates/?id=2024-02-06.3.1#g3.2''))"
  "py_get complete_entry (ustr ''body'') (PStr (ustr ''No content'')) = Inr (PStr (replicate 500 97))"
  "py_get complete_entry (ustr ''listurl'') PNone = Inr (PStr (ustr ''/debates/?id=2024-02-07.4.1''))"
  "py_get orphan_entry (ustr ''body'') (PStr (ustr ''No content'')) =
     Inr (PStr (ustr ''Thank you Mr Speaker...''))"
  "py_get orphan_entry (ustr ''listurl'') PNone = Inr PNone"
  by (simp_all add: truncated_entry_def complete_entry_def orphan_entry_def ustr_def)

lemma sample_truncated:
  "is_truncated (ustr ''Thank you Mr Speaker...'')" "\<not> is_truncated (replicate 500 97)"
  by (simp_all add: not_truncated_replicate) (simp add: is_truncated_def ustr_def)

lemma fetch_budget_page:
  "fetch_full_speech (sample_env (Inr ok_response) j (Inr budget_page)) []
     (PStr (ustr ''/debates/?id=2024-02-06.3.1#g3.2'')) =
   (ustr ''Full remarks on the budget bill.'',
    [(ustr ''https://www.openaustralia.org.au/debates/?id=2024-02-06.3.1'', [])])"
  by (simp add: fetch_full_speech_def fetch_page_str sample_target)
    (simp add: sample_env_def ok_response_def extract_budget_page)

theorem full_text_rule_witness:
  "well_formed (sample_env (Inr ok_response) (Inl ValueError) (Inr budget_page)) truncated_entry \<and>
   well_formed (sample_env (Inr ok_response) (Inl ValueError) (Inr budget_page)) complete_entry \<and>
   well_formed (sample_env (Inr ok_response) (Inl ValueError) (Inr budget_page)) orphan_entry \<and>
   (\<exists>row. process_entry fetch_full_speech
       (sample_env (Inr ok_response) (Inl ValueError) (Inr budget_page)) [] truncated_entry =
         Inr (row, [(ustr ''https://www.openaustralia.org.au/debates/?id=2024-02-06.3.1'', [])]) \<and>
       row_speech row = ustr ''Full remarks on the budget bill.'') \<and>
   (\<exists>row. process_entry fetch_full_speech
       (sample_env (Inr ok_response) (Inl ValueError) (Inr budget_page)) [] complete_entry =
         Inr (row, []) \<and>
       row_speech row = replicate 500 97) \<and>
   (\<exists>row. process_entry fetch_full_speech
       (sample_env (Inr ok_response) (Inl ValueError) (Inr budget_page)) [] orphan_entry =
         Inr (row, []) \<and>
       row_speech row = sentinel)"
  using
    full_text_rule [OF well_formed_samples(1), of "Inr ok_response" "Inl ValueError" "Inr budget_page" "[]"]
    full_text_rule [OF well_formed_samples(2), of "Inr ok_response" "Inl ValueError" "Inr budget_page" "[]"]
    full_text_rule [OF well_formed_samples(3), of "Inr ok_response" "Inl ValueError" "Inr budget_page" "[]"]
  by (auto simp: well_formed_samples sample_fields sample_truncated ustr_eq_Nil fetch_budget_page)








section \<open>The record client and the date filter: claims C7 and C6\<close>

lemma make_call_response:
  assumes "respond E log (api_url self @ ustr ''/'' @ function, call_params self kwargs) = Inr response"
    and "raise_for_status E (status_code response) = None"
    and "json_loads E (content response) = Inr data"
  shows "fst (make_call E log self function kwargs) =
     (if dict_has data (ustr ''error'') then PNone else data)"
  using assms by (simp add: make_call_def requests_get_def)

lemma get_hansard_fst:
  "fst (get_hansard E log self args) =
     (case fst (make_call E log self (ustr ''getHansard'') (hansard_kwargs args)) of
        PDict kvs \<Rightarrow> (case map_of kvs (ustr ''rows'') of Some rows \<Rightarrow> rows | None \<Rightarrow> PNone)
      | PList xs \<Rightarrow> PList xs
      | _ \<Rightarrow> PNone)"
  by (simp add: get_hansard_def split: prod.splits pyval.splits option.splits)

text \<open>
  Claim C7, amended: for a response that passes the status check and parses as JSON,
  \<^verbatim>\<open>get_hansard\<close> returns the value of \<^verbatim>\<open>rows\<close> of a dict that carries \<^verbatim>\<open>rows\<close> and no
  \<^verbatim>\<open>error\<close>, returns a list as it is, and returns \<^verbatim>\<open>None\<close>, without raising, for every
  other value and for a dict that carries \<^verbatim>\<open>error\<close>.
\<close>

theorem get_hansard_unwraps:
  assumes "respond E log (api_url self @ ustr ''/'' @ ustr ''getHansard'',
             call_params self (hansard_kwargs args)) = Inr response"
    and "raise_for_status E (status_code response) = None"
    and "json_loads E (content response) = Inr data"
  shows
    "(\<forall>kvs rows. data = PDict kvs \<and> map_of kvs (ustr ''rows'') = Some rows \<and>
        map_of kvs (ustr ''error'') = None \<longrightarrow> fst (get_hansard E log self args) = rows) \<and>
     (\<forall>xs. data = PList xs \<longrightarrow> fst (get_hansard E log self args) = PList xs) \<and>
     ((\<forall>xs. data \<noteq> PList xs) \<and> \<not> dict_has data (ustr ''rows'') \<longrightarrow>
        fst (get_hansard E log self args) = PNone) \<and>
     (dict_has data (ustr ''error'') \<longrightarrow> fst (get_hansard E log self args) = PNone)"
  using make_call_response [OF assms]
  by (cases data) (auto simp: get_hansard_fst split: option.splits)

lemma get_hansard_sample:
  "fst (get_hansard (sample_env (Inr ok_response) (Inr data) p) log self args) =
     (case (if dict_has data (ustr ''error'') then PNone else data) of
        PDict kvs \<Rightarrow> (case map_of kvs (ustr ''rows'') of Some rows \<Rightarrow> rows | None \<Rightarrow> PNone)
      | PList xs \<Rightarrow> PList xs
      | _ \<Rightarrow> PNone)"
  by (simp add: get_hansard_fst make_call_def requests_get_def sample_env_def ok_response_def)

text \<open>
  Claim C7 says that a parsed response that is neither a dict with \<^verbatim>\<open>rows\<close> nor a list
  yields an empty sequence.  \<^verbatim>\<open>get_hansard\<close> returns \<^verbatim>\<open>None\<close> there, which is not the empty
  list: for the JSON object \<^verbatim>\<open>{"info": "no results"}\<close> the result is \<^verbatim>\<open>None\<close>.
\<close>

theorem get_hansard_none_counterexample:
  "fst (get_hansard
     (sample_env (Inr ok_response) (Inr (PDict [(ustr ''info'', PStr (ustr ''no results''))]))
        (Inl ValueError)) [] sample_api sample_args) = PNone \<and>
   fst (get_hansard
     (sample_env (Inr ok_response) (Inr (PDict [(ustr ''info'', PStr (ustr ''no results''))]))
        (Inl ValueError)) [] sample_api sample_args) \<noteq> PList []"
  by (simp add: get_hansard_sample) (simp add: ustr_def)


lemma sample_env_answers:
  "respond (sample_env r j p) log req = r"
  "raise_for_status (sample_env r j p) (status_code ok_response) = None"
  "json_loads (sample_env r j p) c = j"
  "beautiful_soup (sample_env r j p) c = p"
  "strptime (sample_env r j p) = strptime_ymd"
  by (simp_all add: sample_env_def ok_response_def)

theorem get_hansard_unwraps_witness:
  "fst (get_hansard
     (sample_env (Inr ok_response) (Inr (PDict [(ustr ''rows'', PList [truncated_entry])]))
        (Inl ValueError)) [] sample_api sample_args) = PList [truncated_entry] \<and>
   fst (get_hansard
     (sample_env (Inr ok_response) (Inr (PList [orphan_entry])) (Inl ValueError))
        [] sample_api sample_args) = PList [orphan_entry] \<and>
   fst (get_hansard
     (sample_env (Inr ok_response) (Inr (PNum 5)) (Inl ValueError))
        [] sample_api sample_args) = PNone \<and>
   fst (get_hansard
     (sample_env (Inr ok_response)
        (Inr (PDict [(ustr ''error'', PStr (ustr ''Unknown person'')), (ustr ''rows'', PList [])]))
        (Inl ValueError)) [] sample_api sample_args) = PNone"
  using
    get_hansard_unwraps [OF sample_env_answers(1) sample_env_answers(2) sample_env_answers(3),
      of "PDict [(ustr ''rows'', PList [truncated_entry])]" "Inl ValueError" "[]" sample_api sample_args]
    get_hansard_unwraps [OF sample_env_answers(1) sample_env_answers(2) sample_env_answers(3),
      of "PList [orphan_entry]" "Inl ValueError" "[]" sample_api sample_args]
    get_hansard_unwraps [OF sample_env_answers(1) sample_env_answers(2) sample_env_answers(3),
      of "PNum 5" "Inl ValueError" "[]" sample_api sample_args]
    get_hansard_unwraps [OF sample_env_answers(1) sample_env_answers(2) sample_env_answers(3),
      of "PDict [(ustr ''error'', PStr (ustr ''Unknown person'')), (ustr ''rows'', PList [])]"
        "Inl ValueError" "[]" sample_api sample_args]
  by (simp add: ustr_def)


lemma filter_entries_all_parse:
  assumes "list_all (\<lambda>entry. case entry_date E entry of Inl e \<Rightarrow> False | Inr d \<Rightarrow> True) entries"
  shows "filter_entries E d1 d2 entries =
     Inr (filter (\<lambda>entry. case entry_date E entry of Inl e \<Rightarrow> False | Inr d \<Rightarrow> d1 \<le> d \<and> d \<le> d2)
            entries)"
  using assms by (induction entries) (auto split: sum.splits)

lemma filter_entries_some_fails:
  assumes "\<not> list_all (\<lambda>entry. case entry_date E entry of Inl e \<Rightarrow> False | Inr d \<Rightarrow> True) entries"
  shows "\<exists>e. filter_entries E d1 d2 entries = Inl e"
  using assms by (induction entries) (auto split: sum.splits)

lemma date_range_of_list:
  assumes "strptime E start_date = Inr d1" and "strptime E end_date = Inr d2"
    and "fst (get_hansard E log self kwargs) = PList entries"
  shows "fst (get_hansard_by_date_range E log self start_date end_date kwargs) =
     (case filter_entries E d1 d2 entries of Inl e \<Rightarrow> [] | Inr filtered \<Rightarrow> filtered)"
  using assms
  by (cases entries)
    (auto simp: get_hansard_by_date_range_def split: prod.splits sum.splits)

text \<open>
  Claim C6, amended: when both bounds parse and the listing is a list of entries whose
  dates all parse, \<^verbatim>\<open>get_hansard_by_date_range\<close> returns, in the order of the listing,
  exactly the entries whose date lies between the bounds, both bounds included; an entry
  without \<^verbatim>\<open>hdate\<close> is dated 1900-01-01; and when the date of some entry is present but
  does not parse the result is the empty list.
\<close>

theorem date_range_filter:
  assumes "strptime E start_date = Inr d1" and "strptime E end_date = Inr d2"
    and "fst (get_hansard E log self kwargs) = PList entries"
  shows
    "(list_all (\<lambda>entry. case entry_date E entry of Inl e \<Rightarrow> False | Inr d \<Rightarrow> True) entries \<longrightarrow>
        fst (get_hansard_by_date_range E log self start_date end_date kwargs) =
          filter (\<lambda>entry. case entry_date E entry of Inl e \<Rightarrow> False | Inr d \<Rightarrow> d1 \<le> d \<and> d \<le> d2)
            entries) \<and>
     (\<not> list_all (\<lambda>entry. case entry_date E entry of Inl e \<Rightarrow> False | Inr d \<Rightarrow> True) entries \<longrightarrow>
        fst (get_hansard_by_date_range E log self start_date end_date kwargs) = []) \<and>
     (\<forall>kvs. map_of kvs (ustr ''hdate'') = None \<longrightarrow>
        entry_date E (PDict kvs) = strptime E (ustr ''1900-01-01'')) \<and>
     (\<forall>kvs s. map_of kvs (ustr ''hdate'') = Some (PStr s) \<longrightarrow>
        entry_date E (PDict kvs) = strptime E s)"
proof -
  have "list_all (\<lambda>entry. case entry_date E entry of Inl e \<Rightarrow> False | Inr d \<Rightarrow> True) entries \<Longrightarrow>
      fst (get_hansard_by_date_range E log self start_date end_date kwargs) =
        filter (\<lambda>entry. case entry_date E entry of Inl e \<Rightarrow> False | Inr d \<Rightarrow> d1 \<le> d \<and> d \<le> d2) entries"
    by (simp add: date_range_of_list [OF assms] filter_entries_all_parse)
  moreover have
    "\<not> list_all (\<lambda>entry. case entry_date E entry of Inl e \<Rightarrow> False | Inr d \<Rightarrow> True) entries \<Longrightarrow>
      fst (get_hansard_by_date_range E log self start_date end_date kwargs) = []"
    using filter_entries_some_fails [of E entries d1 d2]
    by (auto simp: date_range_of_list [OF assms])
  moreover have "\<forall>kvs. map_of kvs (ustr ''hdate'') = None \<longrightarrow>
      entry_date E (PDict kvs) = strptime E (ustr ''1900-01-01'')"
    by (simp add: entry_date_def)
  moreover have "\<forall>kvs s. map_of kvs (ustr ''hdate'') = Some (PStr s) \<longrightarrow>
      entry_date E (PDict kvs) = strptime E s"
    by (simp add: entry_date_def)
  ultimately show ?thesis
    by blast
qed

lemma strptime_samples:
  "strptime_ymd (ustr ''2023-12-04'') = Inr (2023, 12, 4)"
  "strptime_ymd (ustr ''2023-12-05'') = Inr (2023, 12, 5)"
  "strptime_ymd (ustr ''2024-02-06'') = Inr (2024, 2, 6)"
  "strptime_ymd (ustr ''2024-12-05'') = Inr (2024, 12, 5)"
  "strptime_ymd (ustr ''2024-12-06'') = Inr (2024, 12, 6)"
  "strptime_ymd (ustr ''1900-01-01'') = Inr (1900, 1, 1)"
  "strptime_ymd (ustr ''unknown'') = Inl ValueError"
  by (simp_all add: strptime_ymd_def is_digit_def days_in_month_def ustr_def)

lemma entry_date_dated:
  "entry_date (sample_env r j p) (dated_entry d) = strptime_ymd (ustr d)"
  by (simp add: entry_date_def dated_entry_def sample_env_def)

lemma entry_date_empty:
  "entry_date (sample_env r j p) (PDict []) = Inr (1900, 1, 1)"
  by (simp add: entry_date_def sample_env_def strptime_samples)


text \<open>
  Claim C6 says that an entry whose date does not parse is treated as the earliest date
  and never makes the result empty.  In \<^verbatim>\<open>get_hansard_by_date_range\<close> the default
  \<^verbatim>\<open>'1900-01-01'\<close> stands in for a missing \<^verbatim>\<open>hdate\<close> only; a date that is present and does
  not parse raises inside the \<^verbatim>\<open>try\<close> block, whose handler returns the empty list.  With
  one entry dated 2024-02-06, inside the range, and one entry dated \<^verbatim>\<open>unknown\<close>, the
  result is empty.
\<close>

theorem date_range_unparsed_counterexample:
  "strptime_ymd (ustr ''2023-12-05'') = Inr (2023, 12, 5) \<and>
   strptime_ymd (ustr ''2024-12-05'') = Inr (2024, 12, 5) \<and>
   fst (get_hansard
     (sample_env (Inr ok_response)
        (Inr (PList [dated_entry ''2024-02-06'', dated_entry ''unknown''])) (Inl ValueError))
     [] sample_api sample_args) = PList [dated_entry ''2024-02-06'', dated_entry ''unknown''] \<and>
   entry_date
     (sample_env (Inr ok_response)
        (Inr (PList [dated_entry ''2024-02-06'', dated_entry ''unknown''])) (Inl ValueError))
     (dated_entry ''2024-02-06'') = Inr (2024, 2, 6) \<and>
   ((2023, 12, 5) :: date) \<le> (2024, 2, 6) \<and> ((2024, 2, 6) :: date) \<le> (2024, 12, 5) \<and>
   entry_date
     (sample_env (Inr ok_response)
        (Inr (PList [dated_entry ''2024-02-06'', dated_entry ''unknown''])) (Inl ValueError))
     (dated_entry ''unknown'') = Inl ValueError \<and>
   fst (get_hansard_by_date_range
     (sample_env (Inr ok_response)
        (Inr (PList [dated_entry ''2024-02-06'', dated_entry ''unknown''])) (Inl ValueError))
     [] sample_api (ustr ''2023-12-05'') (ustr ''2024-12-05'') sample_args) = []"
proof -
  let ?E = "sample_env (Inr ok_response)
        (Inr (PList [dated_entry ''2024-02-06'', dated_entry ''unknown''])) (Inl ValueError)"
  have g: "fst (get_hansard ?E [] sample_api sample_args) =
      PList [dated_entry ''2024-02-06'', dated_entry ''unknown'']"
    by (simp add: get_hansard_sample)
  have "fst (get_hansard_by_date_range ?E [] sample_api (ustr ''2023-12-05'') (ustr ''2024-12-05'')
      sample_args) = []"
    by (simp add: date_range_of_list [OF _ _ g] sample_env_answers strptime_samples
        entry_date_dated)
  then show ?thesis
    by (simp add: g strptime_samples entry_date_dated)
qed

theorem date_range_filter_witness:
  "fst (get_hansard_by_date_range
     (sample_env (Inr ok_response)
        (Inr (PDict [(ustr ''rows'',
           PList [dated_entry ''2023-12-04'', dated_entry ''2023-12-05'', PDict [],
                  dated_entry ''2024-02-06'', dated_entry ''2024-12-05'',
                  dated_entry ''2024-12-06''])]))
        (Inl ValueError))
     [] sample_api (ustr ''2023-12-05'') (ustr ''2024-12-05'') sample_args) =
   [dated_entry ''2023-12-05'', dated_entry ''2024-02-06'', dated_entry ''2024-12-05'']"
proof -
  let ?es = "[dated_entry ''2023-12-04'', dated_entry ''2023-12-05'', PDict [],
      dated_entry ''2024-02-06'', dated_entry ''2024-12-05'', dated_entry ''2024-12-06'']"
  let ?E = "sample_env (Inr ok_response) (Inr (PDict [(ustr ''rows'', PList ?es)])) (Inl ValueError)"
  have a: "strptime ?E (ustr ''2023-12-05'') = Inr (2023, 12, 5)"
    and b: "strptime ?E (ustr ''2024-12-05'') = Inr (2024, 12, 5)"
    by (simp_all add: sample_env_answers strptime_samples)
  have g: "fst (get_hansard ?E [] sample_api sample_args) = PList ?es"
    by (simp add: get_hansard_sample) (simp add: ustr_def)
  have p: "list_all (\<lambda>entry. case entry_date ?E entry of Inl e \<Rightarrow> False | Inr d \<Rightarrow> True) ?es"
    by (simp add: entry_date_dated entry_date_empty strptime_samples)
  show ?thesis
    using date_range_filter [OF a b g] p
    by (simp add: entry_date_dated entry_date_empty strptime_samples)
qed

end
